theory Spec2Isabelle
  imports Complex_Main "HOL-Library.Multiset"
begin

section \<open>The MARS to G4Beamline beam converter\<close>

text \<open>
  A shallow embedding of \<^verbatim>\<open>main\<close> of \<^verbatim>\<open>mars2g4bl.py\<close>. The script is
  Python 2 on the numpy of its time. The entries of its float64 arrays are modelled as
  real numbers: rounding of floating-point arithmetic is not part of the model, and
  neither is the amount of memory an array may take.

  Every exception the script can raise on the way is a value of \<open>error\<close>; the result
  of the conversion is \<open>Inl\<close> of the exception, or \<open>Inr\<close> of the matrix that is passed
  to \<^verbatim>\<open>loadBeam\<close> and \<^verbatim>\<open>writeBeam\<close> (class \<^verbatim>\<open>beam\<close> is not part of
  the sources, neither is \<^verbatim>\<open>loadtxt_fast\<close>: the model starts from the loaded
  matrix).

  The two uses of the process-wide random generator are parameters of the model:
  \<open>rnd i\<close> is entry \<open>i\<close> of the array returned by \<^verbatim>\<open>np.random.random(n)\<close>, and
  \<open>shuffle\<close> is what \<^verbatim>\<open>np.random.shuffle\<close> does to the index array.
\<close>

subsection \<open>Data\<close>

datatype error = NameError | IndexError | KeyError | ValueError

type_synonym row = "real list"

text \<open>A loaded two-dimensional array: \<open>ncols\<close> is \<^verbatim>\<open>shape[1]\<close>, \<open>length (rows m)\<close>
  is \<^verbatim>\<open>shape[0]\<close>; every row of an array has \<open>ncols\<close> entries.\<close>

record mat =
  ncols :: nat
  rows :: "row list"

text \<open>The dictionary \<^verbatim>\<open>inputdict\<close> with its four keys; \<open>p_cut\<close> is a Python list.\<close>

record inputdict =
  p_cut :: "real list"
  mult :: real
  duplicate :: bool
  fraction :: real

subsection \<open>Column count (lines 74 to 82)\<close>

text \<open>
  The first test reads \<^verbatim>\<open>marsbeam_mat.shape[1]\<close>. The \<^verbatim>\<open>elif\<close> reads
  \<^verbatim>\<open>MARSbeamMat.shape[1]\<close>, a name that is bound nowhere in the module, so whenever
  the first test fails the evaluation of the second raises NameError: the branch
  \<^verbatim>\<open>time_included = False\<close> and the \<^verbatim>\<open>else\<close> branch are never reached.
\<close>

definition time_column :: "mat \<Rightarrow> error + bool" where
  "time_column marsbeam_mat =
     (if ncols marsbeam_mat = 9 then Inr True else Inl NameError)"

subsection \<open>Momentum cut (lines 91 to 99)\<close>

definition total_p :: "row \<Rightarrow> real" where
  "total_p r = sqrt ((r ! 4)\<^sup>2 + (r ! 5)\<^sup>2 + (r ! 6)\<^sup>2)"

text \<open>Indexing the rows of an array by a boolean array of the same length.\<close>

definition boolean_index :: "'a list \<Rightarrow> bool list \<Rightarrow> 'a list" where
  "boolean_index xs keep = map fst (filter snd (zip xs keep))"

text \<open>
  \<^verbatim>\<open>np.all([a, b], axis=0)\<close> is the elementwise conjunction of the two comparisons.
  \<^verbatim>\<open>p_cut[1]\<close> and \<^verbatim>\<open>p_cut[0]\<close> raise IndexError on a list that is too short.
\<close>

definition momentum_cut :: "real list \<Rightarrow> row list \<Rightarrow> error + row list" where
  "momentum_cut pc rs =
     (if pc \<noteq> [0, 0] then
        (if length pc < 2 then Inl IndexError
         else
           let tp = map total_p rs;
               upper = map (\<lambda>p. p \<le> pc ! 1 / 1000) tp;
               lower = map (\<lambda>p. p \<ge> pc ! 0 / 1000) tp
           in Inr (boolean_index rs (map2 (\<and>) upper lower)))
      else Inr rs)"

subsection \<open>Unit conversion and particle codes (lines 100 to 107)\<close>

definition unit_conversion :: "bool \<Rightarrow> row \<Rightarrow> row" where
  "unit_conversion time_included r =
     (let g = replicate 12 0;
          g = g[0 := r ! 1 * 10, 1 := r ! 2 * 10, 2 := r ! 3 * 10];
          g = g[3 := r ! 4 * 1000, 4 := r ! 5 * 1000, 5 := r ! 6 * 1000]
      in if time_included then g[6 := r ! 8 * 1000000000] else g)"

definition MARS2G4BL_PDG :: "int \<rightharpoonup> int" where
  "MARS2G4BL_PDG =
     [1 \<mapsto> 2212, 2 \<mapsto> - 2112, 3 \<mapsto> 211, 4 \<mapsto> - 211, 5 \<mapsto> 321, 6 \<mapsto> - 321,
      7 \<mapsto> - 13, 8 \<mapsto> 13, 9 \<mapsto> 22, 10 \<mapsto> 11, 11 \<mapsto> - 11]"

text \<open>\<^verbatim>\<open>int(x)\<close> of a float truncates towards zero.\<close>

definition py_int :: "real \<Rightarrow> int" where
  "py_int x = (if 0 \<le> x then \<lfloor>x\<rfloor> else \<lceil>x\<rceil>)"

fun parse_each :: "real list \<Rightarrow> error + real list" where
  "parse_each [] = Inr []"
| "parse_each (x # xs) =
     (case MARS2G4BL_PDG (py_int x) of
        None \<Rightarrow> Inl KeyError
      | Some v \<Rightarrow>
          (case parse_each xs of
             Inl e \<Rightarrow> Inl e
           | Inr vs \<Rightarrow> Inr (real_of_int v # vs)))"

text \<open>
  \<^verbatim>\<open>np.vectorize\<close> without \<^verbatim>\<open>otypes\<close> calls the function on the first entry
  of its argument to find the type of the result, so it raises on an array of size 0
  (ValueError; IndexError in the older releases).
\<close>

definition parse_pdg :: "real list \<Rightarrow> error + real list" where
  "parse_pdg xs = (if xs = [] then Inl ValueError else parse_each xs)"

subsection \<open>Duplication (lines 109 to 123)\<close>

text \<open>The weight of a record after line 117, from its rescaled weight and its draw.\<close>

definition new_weight :: "real \<Rightarrow> real \<Rightarrow> real" where
  "new_weight w u =
     (let particle_weight_int = of_int \<lfloor>w\<rfloor>;
          particle_weight_float = w - particle_weight_int;
          add_weight_logic = (u \<ge> particle_weight_float)
      in particle_weight_int + of_bool add_weight_logic)"

text \<open>
  The counts of line 119 are \<^verbatim>\<open>np.array(..., dtype=int)\<close>: each float is converted by
  the C cast to a signed integer of 64 bits (the C long of the 64-bit platforms the
  script runs on). Inside the range of that type the cast truncates towards zero, as
  \<^verbatim>\<open>int(x)\<close> does; a float outside the range is converted to the least integer of the
  type, \<open>- 2 ^ 63\<close>, by the conversion instruction of x86-64.
\<close>

definition np_int64 :: "real \<Rightarrow> int" where
  "np_int64 x =
     (let i = py_int x in if - (2 ^ 63) \<le> i \<and> i < 2 ^ 63 then i else - (2 ^ 63))"

text \<open>\<^verbatim>\<open>np.repeat(a, counts, axis=0)\<close> raises ValueError on a negative count.\<close>

definition np_repeat :: "'a list \<Rightarrow> int list \<Rightarrow> error + 'a list" where
  "np_repeat xs counts =
     (if list_ex (\<lambda>c. c < 0) counts then Inl ValueError
      else Inr (concat (map2 (\<lambda>x c. replicate (nat c) x) xs counts)))"

definition duplication ::
  "bool \<Rightarrow> (nat \<Rightarrow> real) \<Rightarrow> real list \<Rightarrow> row list \<Rightarrow> error + row list" where
  "duplication dup rnd weights g =
     (if dup then
        (let random = map rnd [0..<length weights];
             weights' = map2 new_weight weights random
         in case np_repeat g (map np_int64 weights') of
              Inl e \<Rightarrow> Inl e
            | Inr g' \<Rightarrow> Inr (map (\<lambda>r. r[11 := 1]) g'))
      else Inr (map2 (\<lambda>r w. r[11 := w]) g weights))"

subsection \<open>Fraction of the beam (lines 126 to 130)\<close>

text \<open>The slice \<^verbatim>\<open>xs[0:k]\<close>; a negative \<open>k\<close> counts from the end.\<close>

definition slice_to :: "'a list \<Rightarrow> int \<Rightarrow> 'a list" where
  "slice_to xs k =
     (if 0 \<le> k then take (nat k) xs else take (nat (int (length xs) + k)) xs)"

text \<open>Indexing the rows of an array by an array of indices.\<close>

definition index_rows :: "'a list \<Rightarrow> nat list \<Rightarrow> error + 'a list" where
  "index_rows g idx =
     (if list_all (\<lambda>i. i < length g) idx then Inr (map ((!) g) idx) else Inl IndexError)"

text \<open>
  The stage has no test on the fraction: the index array is shuffled and sliced for every
  value of \<^verbatim>\<open>inputdict['fraction']\<close>. The bound of the slice is the float
  \<^verbatim>\<open>np.floor(...)\<close>, which the numpy of the script's time converts to an integer.
\<close>

definition fraction_of_beam ::
  "real \<Rightarrow> (nat list \<Rightarrow> nat list) \<Rightarrow> row list \<Rightarrow> error + row list" where
  "fraction_of_beam p shuffle g =
     (let g4blbeam_index = shuffle [0..<length g];
          index_keep = slice_to g4blbeam_index \<lfloor>p * real (length g)\<rfloor>
      in index_rows g index_keep)"

subsection \<open>Event numbers (line 133) and the whole conversion\<close>

definition reassign_eventID :: "row list \<Rightarrow> row list" where
  "reassign_eventID g = map2 (\<lambda>r i. r[8 := real i + 1]) g [0..<length g]"

definition main ::
  "mat \<Rightarrow> inputdict \<Rightarrow> (nat \<Rightarrow> real) \<Rightarrow> (nat list \<Rightarrow> nat list) \<Rightarrow> error + row list" where
  "main marsbeam_mat inputdict rnd shuffle =
     (case time_column marsbeam_mat of
        Inl e \<Rightarrow> Inl e
      | Inr time_included \<Rightarrow>
     (case momentum_cut (p_cut inputdict) (rows marsbeam_mat) of
        Inl e \<Rightarrow> Inl e
      | Inr rs \<Rightarrow>
     (case parse_pdg (map (\<lambda>r. r ! 0) rs) of
        Inl e \<Rightarrow> Inl e
      | Inr pdg \<Rightarrow>
     (let g = map2 (\<lambda>r p. (unit_conversion time_included r)[7 := p]) rs pdg;
          weights = map (\<lambda>r. r ! 7 * mult inputdict) rs
      in case duplication (duplicate inputdict) rnd weights g of
           Inl e \<Rightarrow> Inl e
         | Inr g' \<Rightarrow>
        (case fraction_of_beam (fraction inputdict) shuffle g' of
           Inl e \<Rightarrow> Inl e
         | Inr g'' \<Rightarrow> Inr (reassign_eventID g''))))))"

subsection \<open>The duplication rule in the words of the specification\<close>

text \<open>
  The specification gives the number of copies of a record of rescaled weight \<open>w\<close> and
  draw \<open>u\<close> as \<open>n + 1\<close> if \<open>u < f\<close> and \<open>n\<close> otherwise, where \<open>n = floor w\<close> and
  \<open>f = w - n\<close>. This definition follows those words, not the script.
\<close>

definition spec_copies :: "real \<Rightarrow> real \<Rightarrow> int" where
  "spec_copies w u = (let n = \<lfloor>w\<rfloor>; f = w - of_int n in if u < f then n + 1 else n)"

subsection \<open>Two records and two dictionaries for the examples\<close>

definition example_beam :: mat where
  "example_beam =
     \<lparr>ncols = 9, rows = [[1, 1, 2, 3, 0, 0, 1, 23 / 10, 4], [3, 0, 0, 0, 0, 0, 2, 1, 5]]\<rparr>"

definition example_dict :: inputdict where
  "example_dict = \<lparr>p_cut = [0, 0], mult = 2, duplicate = False, fraction = 1\<rparr>"

definition example_dict_dup :: inputdict where
  "example_dict_dup = \<lparr>p_cut = [0, 0], mult = 1, duplicate = True, fraction = 1 / 2\<rparr>"

section \<open>Facts about the stages\<close>

lemmas stage_defs = time_column_def momentum_cut_def parse_pdg_def MARS2G4BL_PDG_def py_int_def
  unit_conversion_def duplication_def fraction_of_beam_def slice_to_def index_rows_def
  reassign_eventID_def new_weight_def np_int64_def np_repeat_def Let_def

lemma parse_each_length: "parse_each xs = Inr vs \<Longrightarrow> length vs = length xs"
  by (induction xs arbitrary: vs) (auto split: option.splits sum.splits)

lemma parse_each_nth:
  "parse_each xs = Inr vs \<Longrightarrow> i < length xs \<Longrightarrow>
     MARS2G4BL_PDG (py_int (xs ! i)) = Some \<lfloor>vs ! i\<rfloor> \<and> vs ! i = real_of_int \<lfloor>vs ! i\<rfloor>"
proof (induction xs arbitrary: vs i)
  case Nil
  then show ?case by simp
next
  case (Cons x xs)
  then show ?case
    by (cases i) (auto split: option.splits sum.splits)
qed

lemma parse_each_KeyError:
  "x \<in> set xs \<Longrightarrow> MARS2G4BL_PDG (py_int x) = None \<Longrightarrow> parse_each xs = Inl KeyError"
proof (induction xs)
  case Nil
  then show ?case by simp
next
  case (Cons y ys)
  show ?case
  proof (cases "MARS2G4BL_PDG (py_int y)")
    case None
    then show ?thesis by simp
  next
    case (Some v)
    with Cons have "x \<in> set ys" by auto
    with Cons Some show ?thesis by simp
  qed
qed

lemma length_unit_conversion: "length (unit_conversion t r) = 12"
  by (simp add: unit_conversion_def Let_def)

lemma unit_conversion_ids: "unit_conversion t r ! 9 = 0 \<and> unit_conversion t r ! 10 = 0"
  by (simp add: unit_conversion_def Let_def)

lemma np_repeat_set: "np_repeat xs cs = Inr ys \<Longrightarrow> set ys \<subseteq> set xs"
  by (auto simp: np_repeat_def split: if_splits dest!: set_zip_leftD)

lemma duplication_rows:
  "duplication dup rnd ws g = Inr g' \<Longrightarrow> r' \<in> set g' \<Longrightarrow> \<exists>r\<in>set g. \<exists>w. r' = r[11 := w]"
  apply (auto simp: duplication_def Let_def split: if_splits sum.splits
           dest!: np_repeat_set set_zip_leftD)
   apply blast+
  done

lemma index_rows_set: "index_rows g idx = Inr g' \<Longrightarrow> set g' \<subseteq> set g"
  by (auto simp: index_rows_def list_all_iff split: if_splits)

lemma fraction_of_beam_set: "fraction_of_beam p sh g = Inr g' \<Longrightarrow> set g' \<subseteq> set g"
  by (auto simp: fraction_of_beam_def Let_def dest: index_rows_set)

lemma length_reassign_eventID: "length (reassign_eventID g) = length g"
  by (simp add: reassign_eventID_def)

lemma reassign_eventID_nth:
  "j < length g \<Longrightarrow> reassign_eventID g ! j = (g ! j)[8 := real j + 1]"
  by (simp add: reassign_eventID_def)

text \<open>Every row of the output is a converted record with three fields written.\<close>

lemma main_unfold:
  assumes "main m cfg rnd sh = Inr out"
  obtains rs pdg g' g'' where
    "ncols m = 9"
    "momentum_cut (p_cut cfg) (rows m) = Inr rs"
    "rs \<noteq> []"
    "parse_each (map (\<lambda>r. r ! 0) rs) = Inr pdg"
    "duplication (duplicate cfg) rnd (map (\<lambda>r. r ! 7 * mult cfg) rs)
       (map2 (\<lambda>r p. (unit_conversion True r)[7 := p]) rs pdg) = Inr g'"
    "fraction_of_beam (fraction cfg) sh g' = Inr g''"
    "out = reassign_eventID g''"
proof -
  have nc: "ncols m = 9"
    using assms by (cases "ncols m = 9") (simp_all add: main_def time_column_def)
  then have tc: "time_column m = Inr True"
    by (simp add: time_column_def)
  obtain rs where rs: "momentum_cut (p_cut cfg) (rows m) = Inr rs"
    using assms tc by (cases "momentum_cut (p_cut cfg) (rows m)") (simp_all add: main_def)
  obtain pdg where pdg: "parse_pdg (map (\<lambda>r. r ! 0) rs) = Inr pdg"
    using assms tc rs by (cases "parse_pdg (map (\<lambda>r. r ! 0) rs)") (simp_all add: main_def)
  let ?g = "map2 (\<lambda>r p. (unit_conversion True r)[7 := p]) rs pdg"
  let ?w = "map (\<lambda>r. r ! 7 * mult cfg) rs"
  obtain g' where g': "duplication (duplicate cfg) rnd ?w ?g = Inr g'"
    using assms tc rs pdg
    by (cases "duplication (duplicate cfg) rnd ?w ?g") (simp_all add: main_def)
  obtain g'' where g'': "fraction_of_beam (fraction cfg) sh g' = Inr g''"
    using assms tc rs pdg g'
    by (cases "fraction_of_beam (fraction cfg) sh g'") (simp_all add: main_def)
  have out: "out = reassign_eventID g''"
    using assms tc rs pdg g' g'' by (simp add: main_def)
  have ne: "rs \<noteq> []" and pe: "parse_each (map (\<lambda>r. r ! 0) rs) = Inr pdg"
    using pdg by (auto simp: parse_pdg_def split: if_splits)
  show thesis
    using that [OF nc rs ne pe g' g'' out] .
qed

lemma main_rows:
  assumes "main m cfg rnd sh = Inr out" "j < length out"
  shows "\<exists>rs r v w. momentum_cut (p_cut cfg) (rows m) = Inr rs \<and> r \<in> set rs \<and>
           MARS2G4BL_PDG (py_int (r ! 0)) = Some v \<and>
           out ! j = (unit_conversion True r)[7 := real_of_int v, 11 := w, 8 := real j + 1]"
proof -
  from assms(1) obtain rs pdg g' g'' where
    rs: "momentum_cut (p_cut cfg) (rows m) = Inr rs" and
    pdg: "parse_each (map (\<lambda>r. r ! 0) rs) = Inr pdg" and
    g': "duplication (duplicate cfg) rnd (map (\<lambda>r. r ! 7 * mult cfg) rs)
       (map2 (\<lambda>r p. (unit_conversion True r)[7 := p]) rs pdg) = Inr g'" and
    g'': "fraction_of_beam (fraction cfg) sh g' = Inr g''" and
    out: "out = reassign_eventID g''"
    by (rule main_unfold)
  from assms(2) out have j: "j < length g''" by (simp add: length_reassign_eventID)
  then have "g'' ! j \<in> set g'" using fraction_of_beam_set[OF g''] by auto
  from duplication_rows[OF g' this] obtain r0 w where
    r0: "r0 \<in> set (map2 (\<lambda>r p. (unit_conversion True r)[7 := p]) rs pdg)" and
    gj: "g'' ! j = r0[11 := w]" by blast
  have len: "length pdg = length rs" using parse_each_length[OF pdg] by simp
  from r0 obtain i where "i < length (map2 (\<lambda>r p. (unit_conversion True r)[7 := p]) rs pdg)"
    and "map2 (\<lambda>r p. (unit_conversion True r)[7 := p]) rs pdg ! i = r0"
    unfolding in_set_conv_nth by blast
  then have i: "i < length rs" and r0i: "r0 = (unit_conversion True (rs ! i))[7 := pdg ! i]"
    using len by simp_all
  from parse_each_nth[OF pdg, of i] i
  have "MARS2G4BL_PDG (py_int (rs ! i ! 0)) = Some \<lfloor>pdg ! i\<rfloor>" "pdg ! i = real_of_int \<lfloor>pdg ! i\<rfloor>"
    by simp_all
  moreover have "out ! j = (unit_conversion True (rs ! i))[7 := pdg ! i, 11 := w, 8 := real j + 1]"
    using out j gj r0i by (simp add: reassign_eventID_nth)
  ultimately show ?thesis
    using rs i
    by (intro exI [of _ rs] exI [of _ "rs ! i"] exI [of _ "\<lfloor>pdg ! i\<rfloor>"] exI [of _ w]) simp
qed

lemma main_row_facts:
  assumes "main m cfg rnd sh = Inr out" "j < length out"
  shows "length (out ! j) = 12" "out ! j ! 8 = real j + 1" "out ! j ! 9 = 0" "out ! j ! 10 = 0"
proof -
  obtain rs r v w where
    eq: "out ! j = (unit_conversion True r)[7 := real_of_int v, 11 := w, 8 := real j + 1]"
    using main_rows [OF assms] by blast
  show "length (out ! j) = 12"
    by (simp add: eq length_unit_conversion)
  show "out ! j ! 8 = real j + 1"
    by (simp add: eq length_unit_conversion)
  show "out ! j ! 9 = 0"
    by (simp add: eq unit_conversion_ids)
  show "out ! j ! 10 = 0"
    by (simp add: eq unit_conversion_ids)
qed




lemma shuffle_perm:
  assumes "mset xs = mset [0..<n]"
  shows "length xs = n" "distinct xs" "set xs = {0..<n}"
proof -
  show "length xs = n"
    using mset_eq_length [OF assms] by simp
  show "distinct xs"
    using mset_eq_imp_distinct_iff [OF assms] by simp
  show "set xs = {0..<n}"
    using mset_eq_setD [OF assms] by simp
qed

lemma py_int_of_int: "py_int (of_int k) = k"
  by (simp add: py_int_def)

lemma copies_eq:
  assumes "0 \<le> w" "w < 2 ^ 63 - 1"
  shows "np_int64 (new_weight w u) = \<lfloor>w\<rfloor> + (if w - of_int \<lfloor>w\<rfloor> \<le> u then 1 else 0)"
proof -
  let ?k = "\<lfloor>w\<rfloor> + (if w - of_int \<lfloor>w\<rfloor> \<le> u then 1 else 0)"
  have "new_weight w u = of_int ?k"
    by (simp add: new_weight_def Let_def)
  then have k: "py_int (new_weight w u) = ?k"
    by (simp only: py_int_of_int)
  have lo: "0 \<le> \<lfloor>w\<rfloor>"
    using assms(1) by simp
  have "w < of_int (2 ^ 63 - 1)"
    using assms(2) by simp
  then have hi: "\<lfloor>w\<rfloor> < 2 ^ 63 - 1"
    by (simp only: floor_less_iff)
  from lo hi have "- (2 ^ 63) \<le> ?k \<and> ?k < 2 ^ 63"
    by simp
  then show ?thesis
    unfolding np_int64_def Let_def k by simp
qed

text \<open>A weight beyond the range of the cast gives a negative count, which is refused.\<close>

lemma duplication_overflow:
  "duplication True rnd [10000000000000000000] [r] = Inl ValueError"
  by (simp add: duplication_def new_weight_def np_int64_def py_int_def np_repeat_def Let_def)

lemma np_repeat_by_index:
  assumes "length cs = length xs" "list_all (\<lambda>c. 0 \<le> c) cs"
  shows "np_repeat xs cs = Inr (concat (map (\<lambda>i. replicate (nat (cs ! i)) (xs ! i)) [0..<length xs]))"
proof -
  have "\<not> list_ex (\<lambda>c. c < 0) cs"
    using assms(2) by (auto simp: list_all_iff list_ex_iff)
  moreover have "map2 (\<lambda>x c. replicate (nat c) x) xs cs
      = map (\<lambda>i. replicate (nat (cs ! i)) (xs ! i)) [0..<length xs]"
    using assms(1) by (intro nth_equalityI) simp_all
  ultimately show ?thesis
    by (simp add: np_repeat_def)
qed

text \<open>
  The conversion returns a matrix on every matrix of 9 columns of which at least one
  record passes the cut, when the codes of these records are in the table, their rescaled
  weights are not negative and below \<open>2 ^ 63 - 1\<close>, the fraction lies between 0 and 1 and
  the shuffle permutes the indices.
\<close>

lemma parse_each_total:
  "list_all (\<lambda>x. MARS2G4BL_PDG (py_int x) \<noteq> None) xs \<Longrightarrow> \<exists>vs. parse_each xs = Inr vs"
  by (induction xs) auto

lemma fraction_of_beam_take:
  assumes "0 \<le> p" "p \<le> 1" "mset (shuffle [0..<length g]) = mset [0..<length g]"
  shows "fraction_of_beam p shuffle g =
           Inr (map ((!) g) (take (nat \<lfloor>p * real (length g)\<rfloor>) (shuffle [0..<length g])))"
proof -
  let ?n = "length g"
  let ?k = "\<lfloor>p * real ?n\<rfloor>"
  let ?idx = "take (nat ?k) (shuffle [0..<?n])"
  note perm = shuffle_perm [OF assms(3)]
  have k0: "0 \<le> ?k" using assms(1) by simp
  have sl: "slice_to (shuffle [0..<?n]) ?k = ?idx" using k0 by (simp add: slice_to_def)
  have "set ?idx \<subseteq> {..<?n}"
    using set_take_subset [of "nat ?k" "shuffle [0..<?n]"] perm(3) by auto
  then have "list_all (\<lambda>i. i < ?n) ?idx" by (auto simp: list_all_iff)
  then show ?thesis
    by (simp add: fraction_of_beam_def Let_def sl index_rows_def)
qed

lemma duplication_total:
  assumes "length g = length ws" "list_all (\<lambda>w. 0 \<le> w \<and> w < 2 ^ 63 - 1) ws"
  shows "\<exists>g'. duplication dup rnd ws g = Inr g'"
proof (cases dup)
  case False
  then show ?thesis by (simp add: duplication_def)
next
  case True
  let ?cs = "map np_int64 (map2 new_weight ws (map rnd [0..<length ws]))"
  have "0 \<le> ?cs ! i" if "i < length ws" for i
  proof -
    have w: "0 \<le> ws ! i" "ws ! i < 2 ^ 63 - 1"
      using assms(2) that by (simp_all add: list_all_length)
    then have "0 \<le> \<lfloor>ws ! i\<rfloor>" by simp
    then show ?thesis using that by (simp add: copies_eq [OF w])
  qed
  then have "list_all (\<lambda>c. 0 \<le> c) ?cs"
    by (simp add: list_all_length)
  moreover have "length ?cs = length g" using assms(1) by simp
  ultimately obtain ys where "np_repeat g ?cs = Inr ys"
    using np_repeat_by_index [of ?cs g] by blast
  with True show ?thesis
    by (simp add: duplication_def Let_def)
qed

lemma main_returns:
  assumes "ncols m = 9"
    and "momentum_cut (p_cut cfg) (rows m) = Inr rs" and "rs \<noteq> []"
    and "list_all (\<lambda>r. MARS2G4BL_PDG (py_int (r ! 0)) \<noteq> None) rs"
    and "list_all (\<lambda>r. 0 \<le> r ! 7 * mult cfg \<and> r ! 7 * mult cfg < 2 ^ 63 - 1) rs"
    and "0 \<le> fraction cfg" and "fraction cfg \<le> 1"
    and "\<And>n. mset (sh [0..<n]) = mset [0..<n]"
  shows "\<exists>out. main m cfg rnd sh = Inr out"
proof -
  have "list_all (\<lambda>x. MARS2G4BL_PDG (py_int x) \<noteq> None) (map (\<lambda>r. r ! 0) rs)"
    using assms(4) by (simp add: list_all_iff)
  then obtain pdg where pe: "parse_each (map (\<lambda>r. r ! 0) rs) = Inr pdg"
    using parse_each_total by blast
  then have pdg: "parse_pdg (map (\<lambda>r. r ! 0) rs) = Inr pdg"
    using assms(3) by (simp add: parse_pdg_def)
  have len: "length pdg = length rs"
    using parse_each_length [OF pe] by simp
  let ?g = "map2 (\<lambda>r p. (unit_conversion True r)[7 := p]) rs pdg"
  let ?w = "map (\<lambda>r. r ! 7 * mult cfg) rs"
  have "length ?g = length ?w" using len by simp
  moreover have "list_all (\<lambda>w. 0 \<le> w \<and> w < 2 ^ 63 - 1) ?w"
    using assms(5) by (simp add: list_all_iff)
  ultimately obtain g' where g': "duplication (duplicate cfg) rnd ?w ?g = Inr g'"
    using duplication_total by blast
  have g'': "fraction_of_beam (fraction cfg) sh g' =
      Inr (map ((!) g') (take (nat \<lfloor>fraction cfg * real (length g')\<rfloor>) (sh [0..<length g'])))"
    using assms(6,7) assms(8) [of "length g'"] by (rule fraction_of_beam_take)
  show ?thesis
    using assms(1,2) pdg g' g'' by (simp add: main_def time_column_def)
qed

text \<open>The conversion of the two example records, without and with duplication.\<close>

lemma example_run:
  "main example_beam example_dict (\<lambda>i. 1 / 2) rev =
     Inr [[0, 0, 0, 0, 0, 2000, 5000000000, 211, 1, 0, 0, 2],
          [10, 20, 30, 0, 0, 1000, 4000000000, 2212, 2, 0, 0, 23 / 5]]"
  by (simp add: main_def example_beam_def example_dict_def stage_defs eval_nat_numeral)

lemma example_run_dup:
  "main example_beam example_dict_dup (\<lambda>i. 1 / 2) rev =
     Inr [[0, 0, 0, 0, 0, 2000, 5000000000, 211, 1, 0, 0, 1],
          [0, 0, 0, 0, 0, 2000, 5000000000, 211, 2, 0, 0, 1]]"
  by (simp add: main_def example_beam_def example_dict_dup_def stage_defs eval_nat_numeral)

section \<open>The column count\<close>

text \<open>
  Claim C8. A loaded matrix whose column count is neither 8 nor 9 stops the conversion:
  the result is an exception, no matrix is produced and no later stage runs. In the
  script the stop is the NameError of line 76, raised before the message of the
  \<^verbatim>\<open>else\<close> branch is reached.
\<close>

theorem width_not_8_or_9_aborts:
  "ncols m \<noteq> 8 \<Longrightarrow> ncols m \<noteq> 9 \<Longrightarrow> main m cfg rnd shuffle = Inl NameError"
  by (simp add: main_def time_column_def)

theorem width_not_8_or_9_aborts_witness:
  "ncols \<lparr>ncols = 7, rows = [[1, 0, 0, 0, 0, 0, 1]]\<rparr> \<noteq> 8 \<and>
   ncols \<lparr>ncols = 7, rows = [[1, 0, 0, 0, 0, 0, 1]]\<rparr> \<noteq> 9 \<and>
   main \<lparr>ncols = 7, rows = [[1, 0, 0, 0, 0, 0, 1]]\<rparr>
     \<lparr>p_cut = [0, 0], mult = 1, duplicate = False, fraction = 1\<rparr> (\<lambda>i. 0) (\<lambda>xs. xs)
     = Inl NameError"
  using width_not_8_or_9_aborts
    [of "\<lparr>ncols = 7, rows = [[1, 0, 0, 0, 0, 0, 1]]\<rparr>"
        "\<lparr>p_cut = [0, 0], mult = 1, duplicate = False, fraction = 1\<rparr>" "\<lambda>i. 0" "\<lambda>xs. xs"]
  by simp

text \<open>
  Claim C9. The end-to-end scenario of the specification gives the converter one row of
  8 columns and expects one output row. On that input the script raises the NameError
  of line 76 and produces no row, whatever the random generator does.
\<close>

theorem eight_column_scenario_raises:
  "main \<lparr>ncols = 8, rows = [[1, 1, 2, 3, 1 / 10, 2 / 10, 9899 / 10000, 1]]\<rparr>
     \<lparr>p_cut = [0, 0], mult = 1, duplicate = False, fraction = 1\<rparr> rnd shuffle
   = Inl NameError"
  by (simp add: main_def time_column_def)

section \<open>The momentum cut\<close>






section \<open>The shape of the output\<close>

text \<open>
  Claim C3. Whenever the conversion produces a matrix, every row of it has exactly 12
  entries, and column 8 (the event number) reads \<open>1, 2, \<dots>, N\<close> from the first row to the
  last, where \<open>N\<close> is the number of rows left after the cut, the duplication and the
  sampling.
\<close>

theorem output_shape_and_event_ids:
  assumes "main m cfg rnd sh = Inr out"
  shows "list_all (\<lambda>r. length r = 12) out \<and> map (\<lambda>r. r ! 8) out = map real [1..<Suc (length out)]"
proof -
  have "list_all (\<lambda>r. length r = 12) out"
    unfolding list_all_length using main_row_facts(1) [OF assms] by blast
  moreover have "map (\<lambda>r. r ! 8) out = map real [1..<Suc (length out)]"
  proof (rule nth_equalityI)
    show "length (map (\<lambda>r. r ! 8) out) = length (map real [1..<Suc (length out)])"
      by (simp del: upt_Suc)
  next
    fix j assume "j < length (map (\<lambda>r. r ! 8) out)"
    then have j: "j < length out" by simp
    then have "map real [1..<Suc (length out)] ! j = real j + 1"
      by (simp del: upt_Suc)
    with main_row_facts(2) [OF assms j] j
    show "map (\<lambda>r. r ! 8) out ! j = map real [1..<Suc (length out)] ! j"
      by (simp del: upt_Suc)
  qed
  ultimately show ?thesis by simp
qed

theorem output_shape_and_event_ids_witness:
  "let out = [[0, 0, 0, 0, 0, 2000, 5000000000, 211, 1, 0, 0, 1],
              [0, 0, 0, 0, 0, 2000, 5000000000, 211, 2, 0, 0, 1]]
   in main example_beam example_dict_dup (\<lambda>i. 1 / 2) rev = Inr out \<and>
      list_all (\<lambda>r. length r = 12) out \<and>
      map (\<lambda>r. r ! 8) out = map real [1..<Suc (length out)]"
  using output_shape_and_event_ids [OF example_run_dup] example_run_dup by (simp only: Let_def)

text \<open>
  Claim C10. In every row of the output, column 9 (the track number) and column 10 (the
  parent number) are 0: the output starts as \<^verbatim>\<open>np.zeros\<close> and no stage writes
  these two columns.
\<close>

theorem track_parent_zero:
  assumes "main m cfg rnd sh = Inr out" "r \<in> set out"
  shows "r ! 9 = 0 \<and> r ! 10 = 0"
proof -
  from assms(2) obtain j where j: "j < length out" "r = out ! j"
    by (auto simp: in_set_conv_nth)
  show ?thesis
    using main_row_facts(3,4) [OF assms(1) j(1)] j(2) by simp
qed

theorem track_parent_zero_witness:
  "main example_beam example_dict (\<lambda>i. 1 / 2) rev =
     Inr [[0, 0, 0, 0, 0, 2000, 5000000000, 211, 1, 0, 0, 2],
          [10, 20, 30, 0, 0, 1000, 4000000000, 2212, 2, 0, 0, 23 / 5]] \<and>
   [10, 20, 30, 0, 0, 1000, 4000000000, 2212, 2, 0, 0, 23 / 5] ! 9 = (0::real) \<and>
   [10, 20, 30, 0, 0, 1000, 4000000000, 2212, 2, 0, 0, 23 / 5] ! 10 = (0::real)"
  using track_parent_zero [OF example_run, of "[10, 20, 30, 0, 0, 1000, 4000000000, 2212, 2, 0, 0, 23 / 5]"]
    example_run
  by simp

section \<open>The weights\<close>



section \<open>The particle codes\<close>

text \<open>
  The claim C4 says that the conversion fails for any record whose code is outside the
  table. The codes are looked up after the momentum cut (line 107 follows line 97), so a
  record that the cut removes is never looked up: here the record with code 99 has
  momentum 0, the window is 500 to 2000 MeV/c, and the conversion returns the other
  record.
\<close>

theorem pdg_dropped_record_counterexample:
  "main \<lparr>ncols = 9, rows = [[1, 0, 0, 0, 0, 0, 1, 1, 0], [99, 0, 0, 0, 0, 0, 0, 1, 0]]\<rparr>
     \<lparr>p_cut = [500, 2000], mult = 1, duplicate = False, fraction = 1\<rparr> (\<lambda>i. 0) (\<lambda>xs. xs)
     = Inr [[0, 0, 0, 0, 0, 1000, 0, 2212, 1, 0, 0, 1]] \<and>
   MARS2G4BL_PDG (py_int 99) = None"
  by (simp add: main_def stage_defs total_p_def boolean_index_def eval_nat_numeral)

text \<open>
  Claim C4, amended. The table maps the codes 1 to 11 to 2212, -2112, 211, -211, 321,
  -321, -13, 13, 22, 11 and -11. If a record that passes the momentum cut has a code
  (\<^verbatim>\<open>int(x)\<close> of column 0) outside the table, the conversion raises KeyError on a
  matrix of 9 columns (NameError on any other width) and produces no output. Every row
  of an output is the conversion of a record that passed the cut, and its column 7 is
  the table's value for the code of that record.
\<close>

theorem pdg_mapping:
  "map MARS2G4BL_PDG [1, 2, 3, 4, 5, 6, 7, 8, 9, 10, 11] =
     map Some [2212, - 2112, 211, - 211, 321, - 321, - 13, 13, 22, 11, - 11] \<and>
   (momentum_cut (p_cut cfg) (rows m) = Inr rs \<and> r \<in> set rs \<and>
    MARS2G4BL_PDG (py_int (r ! 0)) = None \<longrightarrow>
      main m cfg rnd sh = Inl (if ncols m = 9 then KeyError else NameError)) \<and>
   (main m cfg rnd sh = Inr out \<and> j < length out \<longrightarrow>
      (\<exists>rs r v w. momentum_cut (p_cut cfg) (rows m) = Inr rs \<and> r \<in> set rs \<and>
         MARS2G4BL_PDG (py_int (r ! 0)) = Some v \<and>
         out ! j = (unit_conversion True r)[7 := real_of_int v, 11 := w, 8 := real j + 1] \<and>
         out ! j ! 7 = real_of_int v))"
proof (intro conjI impI)
  show "map MARS2G4BL_PDG [1, 2, 3, 4, 5, 6, 7, 8, 9, 10, 11] =
     map Some [2212, - 2112, 211, - 211, 321, - 321, - 13, 13, 22, 11, - 11]"
    by (simp add: MARS2G4BL_PDG_def)
next
  assume h: "momentum_cut (p_cut cfg) (rows m) = Inr rs \<and> r \<in> set rs \<and>
    MARS2G4BL_PDG (py_int (r ! 0)) = None"
  then have "r ! 0 \<in> set (map (\<lambda>r. r ! 0) rs)" by simp
  with h have pe: "parse_each (map (\<lambda>r. r ! 0) rs) = Inl KeyError"
    by (intro parse_each_KeyError [of "r ! 0"]) simp_all
  from h have ne: "map (\<lambda>r. r ! 0) rs \<noteq> []" by auto
  show "main m cfg rnd sh = Inl (if ncols m = 9 then KeyError else NameError)"
    using h pe ne by (simp add: main_def time_column_def parse_pdg_def)
next
  assume h: "main m cfg rnd sh = Inr out \<and> j < length out"
  then obtain rs r v w where
    a: "momentum_cut (p_cut cfg) (rows m) = Inr rs" "r \<in> set rs"
       "MARS2G4BL_PDG (py_int (r ! 0)) = Some v" and
    eq: "out ! j = (unit_conversion True r)[7 := real_of_int v, 11 := w, 8 := real j + 1]"
    using main_rows [of m cfg rnd sh out j] by blast
  have "out ! j ! 7 = real_of_int v"
    by (simp add: eq length_unit_conversion)
  with a eq show "\<exists>rs r v w. momentum_cut (p_cut cfg) (rows m) = Inr rs \<and> r \<in> set rs \<and>
         MARS2G4BL_PDG (py_int (r ! 0)) = Some v \<and>
         out ! j = (unit_conversion True r)[7 := real_of_int v, 11 := w, 8 := real j + 1] \<and>
         out ! j ! 7 = real_of_int v"
    by blast
qed

theorem pdg_mapping_witness:
  "momentum_cut (p_cut example_dict) (rows \<lparr>ncols = 9, rows = [[99, 0, 0, 0, 0, 0, 1, 1, 0]]\<rparr>)
     = Inr [[99, 0, 0, 0, 0, 0, 1, 1, 0]] \<and>
   [99, 0, 0, 0, 0, 0, 1, 1, 0] \<in> set [[99, 0, 0, 0, 0, 0, 1, 1, 0::real]] \<and>
   MARS2G4BL_PDG (py_int ([99, 0, 0, 0, 0, 0, 1, 1, 0] ! 0)) = None \<and>
   main \<lparr>ncols = 9, rows = [[99, 0, 0, 0, 0, 0, 1, 1, 0]]\<rparr> example_dict (\<lambda>i. 0) (\<lambda>xs. xs)
     = Inl KeyError \<and>
   main example_beam example_dict (\<lambda>i. 1 / 2) rev =
     Inr [[0, 0, 0, 0, 0, 2000, 5000000000, 211, 1, 0, 0, 2],
          [10, 20, 30, 0, 0, 1000, 4000000000, 2212, 2, 0, 0, 23 / 5]] \<and>
   (\<exists>r v. r \<in> set (rows example_beam) \<and> MARS2G4BL_PDG (py_int (r ! 0)) = Some v \<and>
      [[0, 0, 0, 0, 0, 2000, 5000000000, 211, 1, 0, 0, 2],
       [10, 20, 30, 0, 0, 1000, 4000000000, 2212, 2, 0, 0, 23 / 5]] ! 0 ! 7 = real_of_int v)"
proof -
  let ?m = "\<lparr>ncols = 9, rows = [[99, 0, 0, 0, 0, 0, 1, 1, 0]]\<rparr>"
  let ?out = "[[0, 0, 0, 0, 0, 2000, 5000000000, 211, 1, 0, 0, 2],
          [10, 20, 30, 0, 0, 1000, 4000000000, 2212, 2, 0, 0, 23 / 5::real]]"
  have a: "momentum_cut (p_cut example_dict) (rows ?m) = Inr [[99, 0, 0, 0, 0, 0, 1, 1, 0]]"
    by (simp add: example_dict_def momentum_cut_def)
  have b: "[99, 0, 0, 0, 0, 0, 1, 1, 0] \<in> set [[99, 0, 0, 0, 0, 0, 1, 1, 0::real]]"
    by simp
  have c: "MARS2G4BL_PDG (py_int ([99, 0, 0, 0, 0, 0, 1, 1, 0] ! 0)) = None"
    by (simp add: MARS2G4BL_PDG_def py_int_def)
  have d: "main ?m example_dict (\<lambda>i. 0) (\<lambda>xs. xs) = Inl KeyError"
    using pdg_mapping [of example_dict ?m "[[99, 0, 0, 0, 0, 0, 1, 1, 0]]" "[99, 0, 0, 0, 0, 0, 1, 1, 0]"
               "\<lambda>i. 0" "\<lambda>xs. xs"] a b c
    by simp
  have e: "momentum_cut (p_cut example_dict) (rows example_beam) = Inr (rows example_beam)"
    by (simp add: example_dict_def momentum_cut_def)
  have "\<exists>rs r v w. momentum_cut (p_cut example_dict) (rows example_beam) = Inr rs \<and> r \<in> set rs \<and>
         MARS2G4BL_PDG (py_int (r ! 0)) = Some v \<and>
         ?out ! 0 = (unit_conversion True r)[7 := real_of_int v, 11 := w, 8 := real 0 + 1] \<and>
         ?out ! 0 ! 7 = real_of_int v"
    using pdg_mapping [of example_dict example_beam _ _ "\<lambda>i. 1 / 2" rev ?out 0] example_run
    by simp
  with e have f: "\<exists>r v. r \<in> set (rows example_beam) \<and> MARS2G4BL_PDG (py_int (r ! 0)) = Some v \<and>
      ?out ! 0 ! 7 = real_of_int v"
    by auto
  from a b c d example_run f show ?thesis
    by (simp only: simp_thms)
qed

section \<open>The duplication\<close>

text \<open>
  The claim C1 says that a record gets \<open>n + 1\<close> copies if \<open>u < f\<close> and \<open>n\<close> otherwise.
  Line 115 adds the extra copy when \<open>u \<ge> f\<close>, as the docstring of the module says
  (weight 2.3: twice with probability 30 percent, three times with 70 percent): with
  weight 2.3 and draw 0.5 the script makes three copies, the rule of the claim two.
\<close>

theorem duplication_rule_counterexample:
  "duplication True (\<lambda>i. 1 / 2) [23 / 10] [[10, 20, 30, 0, 0, 1000, 0, 2212, 0, 0, 0, 0]] =
     Inr [[10, 20, 30, 0, 0, 1000, 0, 2212, 0, 0, 0, 1],
          [10, 20, 30, 0, 0, 1000, 0, 2212, 0, 0, 0, 1],
          [10, 20, 30, 0, 0, 1000, 0, 2212, 0, 0, 0, 1]] \<and>
   spec_copies (23 / 10) (1 / 2) = 2"
  by (simp add: stage_defs spec_copies_def eval_nat_numeral)

text \<open>
  Claim C1, amended. With duplication and rescaled weights \<open>w\<close> with
  \<open>0 \<le> w < 2 ^ 63 - 1\<close> (so that every count fits the 64-bit integers of line 119), the
  record at place \<open>i\<close>, with \<open>n = floor w\<close>, \<open>f = w - n\<close> and its one draw \<open>u = rnd i\<close>,
  appears \<open>n + 1\<close> times in a row if \<open>u \<ge> f\<close> and \<open>n\<close> times otherwise, each copy with
  weight 1 in column 11; the copies of the records follow in the order of the records.
\<close>

theorem duplication_copies:
  assumes "length g = length ws" "list_all (\<lambda>w. 0 \<le> w \<and> w < 2 ^ 63 - 1) ws"
  shows "duplication True rnd ws g =
           Inr (concat (map (\<lambda>i. replicate
                  (nat (\<lfloor>ws ! i\<rfloor> + (if ws ! i - of_int \<lfloor>ws ! i\<rfloor> \<le> rnd i then 1 else 0)))
                  ((g ! i)[11 := 1])) [0..<length g]))"
proof -
  let ?c = "\<lambda>i. \<lfloor>ws ! i\<rfloor> + (if ws ! i - of_int \<lfloor>ws ! i\<rfloor> \<le> rnd i then 1 else 0)"
  let ?cs = "map np_int64 (map2 new_weight ws (map rnd [0..<length ws]))"
  have w: "0 \<le> ws ! i" "ws ! i < 2 ^ 63 - 1" if "i < length ws" for i
    using assms(2) that by (simp_all add: list_all_length)
  have cs: "?cs = map ?c [0..<length ws]"
  proof (rule nth_equalityI)
    show "length ?cs = length (map ?c [0..<length ws])"
      by simp
  next
    fix i assume "i < length ?cs"
    then have i: "i < length ws" by simp
    then have "?cs ! i = np_int64 (new_weight (ws ! i) (rnd i))"
      by simp
    also have "\<dots> = ?c i"
      by (rule copies_eq [OF w [OF i]])
    finally show "?cs ! i = map ?c [0..<length ws] ! i"
      using i by simp
  qed
  have "list_all (\<lambda>c. 0 \<le> c) (map ?c [0..<length ws])"
    using w(1) by (auto simp: list_all_length)
  with cs have nonneg: "list_all (\<lambda>c. 0 \<le> c) ?cs" by simp
  have len: "length ?cs = length g" using assms(1) by simp
  have "np_repeat g ?cs = Inr (concat (map (\<lambda>i. replicate (nat (?cs ! i)) (g ! i)) [0..<length g]))"
    by (rule np_repeat_by_index [OF len nonneg])
  also have "map (\<lambda>i. replicate (nat (?cs ! i)) (g ! i)) [0..<length g]
      = map (\<lambda>i. replicate (nat (?c i)) (g ! i)) [0..<length g]"
  proof (rule map_cong [OF refl])
    fix i assume "i \<in> set [0..<length g]"
    then have i: "i < length ws" using assms(1) by simp
    have "?cs ! i = map ?c [0..<length ws] ! i" by (simp only: cs)
    also have "\<dots> = ?c i" using i by simp
    finally show "replicate (nat (?cs ! i)) (g ! i) = replicate (nat (?c i)) (g ! i)"
      by (simp only:)
  qed
  finally have rep: "np_repeat g ?cs =
      Inr (concat (map (\<lambda>i. replicate (nat (?c i)) (g ! i)) [0..<length g]))" .
  show ?thesis
    unfolding duplication_def Let_def rep
    by (simp add: map_concat comp_def)
qed

theorem duplication_copies_witness:
  "length [[10, 20, 30, 0, 0, 1000, 0, 2212, 0, 0, 0, 0::real]] = length [23 / 10::real] \<and>
   list_all (\<lambda>w. 0 \<le> w \<and> w < 2 ^ 63 - 1) [23 / 10::real] \<and>
   duplication True (\<lambda>i. 1 / 10) [23 / 10] [[10, 20, 30, 0, 0, 1000, 0, 2212, 0, 0, 0, 0]] =
     Inr [[10, 20, 30, 0, 0, 1000, 0, 2212, 0, 0, 0, 1],
          [10, 20, 30, 0, 0, 1000, 0, 2212, 0, 0, 0, 1]]"
  using duplication_copies [of "[[10, 20, 30, 0, 0, 1000, 0, 2212, 0, 0, 0, 0]]" "[23 / 10]" "\<lambda>i. 1 / 10"]
  by (simp add: eval_nat_numeral)

section \<open>The fraction of the beam\<close>

text \<open>
  Claim C6. For a fraction \<open>p\<close> with \<open>0 < p \<le> 1\<close> and a shuffle that permutes the indices,
  the sampler returns the rows of its argument at \<open>floor (p * row_count)\<close> indices that
  are pairwise different and in range: no row is taken twice and none is made up.
\<close>

theorem sampler_subset:
  assumes "0 < p" "p \<le> 1" "mset (shuffle [0..<length g]) = mset [0..<length g]"
  shows "\<exists>idx. fraction_of_beam p shuffle g = Inr (map ((!) g) idx) \<and>
           length idx = nat \<lfloor>p * real (length g)\<rfloor> \<and> distinct idx \<and> set idx \<subseteq> {..<length g}"
proof -
  let ?n = "length g"
  let ?k = "\<lfloor>p * real ?n\<rfloor>"
  let ?idx = "take (nat ?k) (shuffle [0..<?n])"
  note perm = shuffle_perm [OF assms(3)]
  have k0: "0 \<le> ?k" using assms(1) by simp
  have "p * real ?n \<le> 1 * real ?n" using assms(2) by (intro mult_right_mono) simp_all
  then have "p * real ?n \<le> real ?n" by simp
  then have kn: "nat ?k \<le> ?n" by linarith
  have sl: "slice_to (shuffle [0..<?n]) ?k = ?idx" using k0 by (simp add: slice_to_def)
  have sub: "set ?idx \<subseteq> {..<?n}"
    using set_take_subset [of "nat ?k" "shuffle [0..<?n]"] perm(3) by auto
  then have "list_all (\<lambda>i. i < ?n) ?idx" by (auto simp: list_all_iff)
  then have "fraction_of_beam p shuffle g = Inr (map ((!) g) ?idx)"
    by (simp add: fraction_of_beam_def Let_def sl index_rows_def)
  moreover have "length ?idx = nat ?k" using kn perm(1) by simp
  moreover have "distinct ?idx" using perm(2) by simp
  ultimately show ?thesis using sub by blast
qed

theorem sampler_subset_witness:
  "(0::real) < 1 / 2 \<and> (1 / 2::real) \<le> 1 \<and>
   mset (rev [0..<length [[1], [2], [3], [4], [5::real]]]) = mset [0..<length [[1], [2], [3], [4], [5::real]]] \<and>
   (\<exists>idx. fraction_of_beam (1 / 2) rev [[1], [2], [3], [4], [5]] = Inr (map ((!) [[1], [2], [3], [4], [5]]) idx) \<and>
      length idx = nat \<lfloor>1 / 2 * real (length [[1], [2], [3], [4], [5::real]])\<rfloor> \<and> distinct idx \<and>
      set idx \<subseteq> {..<length [[1], [2], [3], [4], [5::real]]})"
  using sampler_subset [of "1 / 2" rev "[[1], [2], [3], [4], [5]]"]
  by simp

text \<open>
  The claim C7 says that with fraction 1 the sampling is skipped and the rows keep their
  order. The script has no such test: it shuffles the indices and keeps all of them, so
  a shuffle that reverses two rows hands them on reversed.
\<close>

theorem fraction_one_counterexample:
  "mset (rev [0..<length [[1], [2::real]]]) = mset [0..<length [[1], [2::real]]] \<and>
   fraction_of_beam 1 rev [[1], [2]] = Inr [[2], [1]] \<and> [[2], [1]] \<noteq> [[1], [2::real]]"
  by (simp add: stage_defs eval_nat_numeral)

text \<open>
  Claim C7, amended. With fraction 1 the sampling stage still runs: the matrix handed
  to the numbering of the events holds the rows of the matrix after duplication at the
  shuffled indices, that is the same rows, each as often as before, in the order of the
  shuffle.
\<close>

theorem fraction_one_permutes:
  assumes "mset (shuffle [0..<length g]) = mset [0..<length g]"
  shows "fraction_of_beam 1 shuffle g = Inr (map ((!) g) (shuffle [0..<length g])) \<and>
         mset (map ((!) g) (shuffle [0..<length g])) = mset g"
proof -
  let ?n = "length g"
  note perm = shuffle_perm [OF assms]
  have sl: "slice_to (shuffle [0..<?n]) \<lfloor>1 * real ?n\<rfloor> = shuffle [0..<?n]"
    using perm(1) by (simp add: slice_to_def)
  have "list_all (\<lambda>i. i < ?n) (shuffle [0..<?n])"
    using perm(3) by (auto simp: list_all_iff)
  then have "fraction_of_beam 1 shuffle g = Inr (map ((!) g) (shuffle [0..<?n]))"
    by (simp only: fraction_of_beam_def Let_def sl index_rows_def if_True)
  moreover have "mset (map ((!) g) (shuffle [0..<?n])) = mset (map ((!) g) [0..<?n])"
    using assms by (simp only: mset_map)
  then have "mset (map ((!) g) (shuffle [0..<?n])) = mset g"
    by (simp only: map_nth)
  ultimately show ?thesis by simp
qed

theorem fraction_one_permutes_witness:
  "mset (rev [0..<length [[1], [2::real]]]) = mset [0..<length [[1], [2::real]]] \<and>
   fraction_of_beam 1 rev [[1], [2]] = Inr (map ((!) [[1], [2]]) (rev [0..<length [[1], [2::real]]])) \<and>
   mset (map ((!) [[1], [2]]) (rev [0..<length [[1], [2::real]]])) = mset [[1], [2]]"
  using fraction_one_permutes [of rev "[[1], [2]]"]
  by simp

end
